theory Spec2Isabelle
  imports Complex_Main "HOL-Library.AList"
begin

section \<open>Python values\<close>

text \<open>
  The issue records of \<^verbatim>\<open>DORA/dora_metrics.py\<close> and
  \<^verbatim>\<open>DORA/dora_metrics_integrated.py\<close> are dictionaries read from JSON
  (\<^verbatim>\<open>List[Dict[str, Any]]\<close>).  A value is one of the JSON shapes; a dictionary is
  an association list read with \<open>map_of\<close>.  Python's \<^verbatim>\<open>int\<close> and
  \<^verbatim>\<open>float\<close> are both \<open>JNum\<close>: a number is the rational it denotes, and
  the arithmetic of the calculators (division, mean, rounding to one decimal) is exact
  rational arithmetic.
\<close>

datatype json =
    JNull
  | JBool bool
  | JNum rat
  | JStr string
  | JList "json list"
  | JDict "(string \<times> json) list"

type_synonym pydict = "(string \<times> json) list"

type_synonym issue = "(string \<times> json) list"

text \<open>The exceptions a calculator can meet; \<open>Inl\<close> is a raised exception.\<close>

datatype py_error = AttributeError | KeyError | TypeError | StatisticsError | ValueError

definition and_then :: "py_error + 'a \<Rightarrow> ('a \<Rightarrow> py_error + 'b) \<Rightarrow> py_error + 'b" where
  "and_then m f = (case m of Inl e \<Rightarrow> Inl e | Inr x \<Rightarrow> f x)"

text \<open>Truth value of an object, as \<^verbatim>\<open>if x\<close>, \<^verbatim>\<open>x or y\<close> and \<^verbatim>\<open>x and y\<close> test it.\<close>

fun truthy :: "json \<Rightarrow> bool" where
  "truthy JNull = False"
| "truthy (JBool b) = b"
| "truthy (JNum x) = (x \<noteq> 0)"
| "truthy (JStr s) = (s \<noteq> [])"
| "truthy (JList xs) = (xs \<noteq> [])"
| "truthy (JDict d) = (d \<noteq> [])"

text \<open>\<^verbatim>\<open>d.get(k, default)\<close> on a dictionary.\<close>

definition dict_get :: "pydict \<Rightarrow> string \<Rightarrow> json \<Rightarrow> json" where
  "dict_get d k dflt = (case map_of d k of None \<Rightarrow> dflt | Some v \<Rightarrow> v)"

text \<open>
  \<^verbatim>\<open>v.get(k, default)\<close> on any value: only a dictionary has the method; on
  \<^verbatim>\<open>None\<close>, a string, a number or a list the attribute lookup raises.
\<close>

fun py_get :: "json \<Rightarrow> string \<Rightarrow> json \<Rightarrow> py_error + json" where
  "py_get (JDict d) k dflt = Inr (dict_get d k dflt)"
| "py_get JNull k dflt = Inl AttributeError"
| "py_get (JBool b) k dflt = Inl AttributeError"
| "py_get (JNum x) k dflt = Inl AttributeError"
| "py_get (JStr s) k dflt = Inl AttributeError"
| "py_get (JList xs) k dflt = Inl AttributeError"

text \<open>\<^verbatim>\<open>d[k]\<close> on a dictionary.\<close>

definition dict_index :: "pydict \<Rightarrow> string \<Rightarrow> py_error + json" where
  "dict_index d k = (case map_of d k of None \<Rightarrow> Inl KeyError | Some v \<Rightarrow> Inr v)"

text \<open>
  \<^verbatim>\<open>round(x, 1)\<close>: the nearest multiple of one tenth, a tie going to the even
  multiple.
\<close>

definition round_half_even :: "rat \<Rightarrow> int" where
  "round_half_even x =
     (let f = \<lfloor>x\<rfloor>; d = x - of_int f
      in if d < 1 / 2 then f
         else if 1 / 2 < d then f + 1
         else if even f then f else f + 1)"

definition py_round1 :: "rat \<Rightarrow> rat" where
  "py_round1 x = of_int (round_half_even (x * 10)) / 10"

section \<open>Tier classifier\<close>

text \<open>
  \<^verbatim>\<open>get_performance_level\<close> is the same text in both files: a table of three
  thresholds per metric, and one chain of \<^verbatim>\<open><=\<close> tests over it.
\<close>

record benchmark =
  elite :: rat
  high :: rat
  medium :: rat

definition benchmarks :: "(string \<times> benchmark) list" where
  "benchmarks =
     [(''lead_time_days'', \<lparr>elite = 1, high = 7, medium = 30\<rparr>),
      (''deployments_per_week'', \<lparr>elite = 7, high = 1, medium = 1 / 5\<rparr>),
      (''mttr_hours'', \<lparr>elite = 1, high = 24, medium = 168\<rparr>),
      (''failure_rate'', \<lparr>elite = 5, high = 15, medium = 30\<rparr>)]"

definition get_performance_level :: "string \<Rightarrow> rat \<Rightarrow> string" where
  "get_performance_level metric v =
     (case map_of benchmarks metric of
        None \<Rightarrow> ''Unknown''
      | Some b \<Rightarrow>
          if v \<le> elite b then ''Elite''
          else if v \<le> high b then ''High''
          else if v \<le> medium b then ''Medium''
          else ''Low'')"





section \<open>Timestamps\<close>

text \<open>
  The calculators read timestamps with \<^verbatim>\<open>dateutil.parser.parse\<close>, a library
  outside the repository; it is a parameter \<open>parse\<close> of every calculator, and \<open>None\<close>
  stands for the exception it raises on a string it cannot read.  Of the
  \<^verbatim>\<open>datetime\<close> it returns the calculators use the calendar date
  (\<^verbatim>\<open>.date()\<close>, here its \<^verbatim>\<open>toordinal()\<close>), the time of day, and
  whether it carries a UTC offset: subtracting a naive from an aware datetime raises
  \<^verbatim>\<open>TypeError\<close>.
\<close>

record py_datetime =
  ordinal :: int
  micros :: int
  utcoffset :: "int option"

type_synonym parser = "string \<Rightarrow> py_datetime option"

text \<open>
  \<^verbatim>\<open>parser.parse(v)\<close> inside \<^verbatim>\<open>try ... except Exception\<close>: a value that is
  not a string raises \<^verbatim>\<open>TypeError\<close>, which the handler catches like a parse error.
\<close>

definition parse_value :: "parser \<Rightarrow> json \<Rightarrow> py_datetime option" where
  "parse_value parse v = (case v of JStr s \<Rightarrow> parse s | _ \<Rightarrow> None)"

definition wall_micros :: "py_datetime \<Rightarrow> int" where
  "wall_micros d = ordinal d * 86400000000 + micros d"

text \<open>
  \<^verbatim>\<open>a - b\<close> on two datetimes, as the microseconds of the \<^verbatim>\<open>timedelta\<close>:
  wall-clock difference for two naive values, difference of the UTC instants for two
  aware ones, \<open>None\<close> (\<^verbatim>\<open>TypeError\<close>) when only one of them is aware.
\<close>

definition dt_sub :: "py_datetime \<Rightarrow> py_datetime \<Rightarrow> int option" where
  "dt_sub a b =
     (case utcoffset a of
        None \<Rightarrow> (case utcoffset b of None \<Rightarrow> Some (wall_micros a - wall_micros b) | Some ob \<Rightarrow> None)
      | Some oa \<Rightarrow>
          (case utcoffset b of
             None \<Rightarrow> None
           | Some ob \<Rightarrow> Some ((wall_micros a - oa * 1000000) - (wall_micros b - ob * 1000000))))"

definition total_seconds :: "int \<Rightarrow> rat" where
  "total_seconds td = of_int td / 1000000"

text \<open>
  The body of the \<^verbatim>\<open>try\<close> block of \<^verbatim>\<open>calculate_lead_time\<close> and
  \<^verbatim>\<open>calculate_mttr\<close>: parse both values, subtract, divide the seconds by
  \<open>unit\<close> (\<^verbatim>\<open>24 * 3600\<close> or \<^verbatim>\<open>3600\<close>).  \<open>None\<close> is the
  \<^verbatim>\<open>continue\<close> of the handler.
\<close>

definition elapsed :: "parser \<Rightarrow> rat \<Rightarrow> json \<Rightarrow> json \<Rightarrow> rat option" where
  "elapsed parse unit created resolved =
     (case parse_value parse created of
        None \<Rightarrow> None
      | Some created_date \<Rightarrow>
          (case parse_value parse resolved of
             None \<Rightarrow> None
           | Some resolved_date \<Rightarrow>
               (case dt_sub resolved_date created_date of
                  None \<Rightarrow> None
                | Some td \<Rightarrow> Some (total_seconds td / unit))))"

text \<open>\<^verbatim>\<open>if created and resolved: try: ... append ... except: continue\<close>.\<close>

definition append_elapsed :: "parser \<Rightarrow> rat \<Rightarrow> json \<Rightarrow> json \<Rightarrow> rat list \<Rightarrow> rat list" where
  "append_elapsed parse unit created resolved later =
     (if truthy created \<and> truthy resolved
      then (case elapsed parse unit created resolved of None \<Rightarrow> later | Some t \<Rightarrow> t # later)
      else later)"

text \<open>\<^verbatim>\<open>if resolved: try: append(parse(resolved).date()) except: continue\<close>.\<close>

definition append_date :: "parser \<Rightarrow> json \<Rightarrow> int list \<Rightarrow> int list" where
  "append_date parse resolved later =
     (if truthy resolved
      then (case parse_value parse resolved of None \<Rightarrow> later | Some d \<Rightarrow> ordinal d # later)
      else later)"

section \<open>The statistics module\<close>

definition mean :: "rat list \<Rightarrow> py_error + rat" where
  "mean xs = (if xs = [] then Inl StatisticsError else Inr (sum_list xs / of_nat (length xs)))"

definition median :: "rat list \<Rightarrow> py_error + rat" where
  "median xs =
     (let data = sort xs; n = length data
      in if n = 0 then Inl StatisticsError
         else if n mod 2 = 1 then Inr (data ! (n div 2))
         else Inr ((data ! (n div 2 - 1) + data ! (n div 2)) / 2))"

definition py_min :: "rat list \<Rightarrow> py_error + rat" where
  "py_min xs = (if xs = [] then Inl ValueError else Inr (Min (set xs)))"

definition py_max :: "rat list \<Rightarrow> py_error + rat" where
  "py_max xs = (if xs = [] then Inl ValueError else Inr (Max (set xs)))"

section \<open>Rendering an integer in an f-string\<close>

fun str_of_nat :: "nat \<Rightarrow> string" where
  "str_of_nat n =
     (if n < 10 then [''0123456789'' ! n]
      else str_of_nat (n div 10) @ [''0123456789'' ! (n mod 10)])"

section \<open>The calculators of DORAMetrics\<close>

text \<open>
  \<^verbatim>\<open>issue.get(k) or issue.get("fields", {}).get(k)\<close>: the top-level value when it
  is truthy; otherwise the value under \<open>fields\<close>, whose \<^verbatim>\<open>.get\<close> raises when the
  \<open>fields\<close> entry is present and not a dictionary.
\<close>

definition field_lookup :: "issue \<Rightarrow> string \<Rightarrow> py_error + json" where
  "field_lookup issue k =
     (let top = dict_get issue k JNull
      in if truthy top then Inr top
         else py_get (dict_get issue ''fields'' (JDict [])) k JNull)"

text \<open>\<^verbatim>\<open>issue.get(k, {}).get("name")\<close>.\<close>

definition top_name :: "issue \<Rightarrow> string \<Rightarrow> py_error + json" where
  "top_name issue k = py_get (dict_get issue k (JDict [])) ''name'' JNull"

text \<open>\<^verbatim>\<open>issue.get("fields", {}).get(k, {}).get("name")\<close>.\<close>

definition nested_name :: "issue \<Rightarrow> string \<Rightarrow> py_error + json" where
  "nested_name issue k =
     and_then (py_get (dict_get issue ''fields'' (JDict [])) k (JDict []))
       (\<lambda>v. py_get v ''name'' JNull)"

text \<open>The condition of the \<open>bug_issues\<close> comprehension; \<^verbatim>\<open>or\<close> evaluates its
  right operand only when the left one is false.\<close>

definition is_bug :: "issue \<Rightarrow> py_error + bool" where
  "is_bug issue =
     and_then (top_name issue ''issuetype'')
       (\<lambda>t. if t = JStr ''Bug'' then Inr True
            else and_then (nested_name issue ''issuetype'') (\<lambda>n. Inr (n = JStr ''Bug'')))"

text \<open>\<^verbatim>\<open>v in ["Highest", "High"]\<close>.\<close>

definition in_highest_high :: "json \<Rightarrow> bool" where
  "in_highest_high v = (v = JStr ''Highest'' \<or> v = JStr ''High'')"

definition is_critical :: "issue \<Rightarrow> py_error + bool" where
  "is_critical issue =
     and_then (top_name issue ''priority'')
       (\<lambda>p. if in_highest_high p then Inr True
            else and_then (nested_name issue ''priority'') (\<lambda>n. Inr (in_highest_high n)))"

text \<open>A list comprehension \<^verbatim>\<open>[issue for issue in issues if cond(issue)]\<close>.\<close>

fun comprehension :: "(issue \<Rightarrow> py_error + bool) \<Rightarrow> issue list \<Rightarrow> py_error + issue list" where
  "comprehension cond [] = Inr []"
| "comprehension cond (issue # rest) =
     and_then (cond issue)
       (\<lambda>keep. and_then (comprehension cond rest)
          (\<lambda>kept. Inr (if keep then issue # kept else kept)))"

text \<open>The loop of \<^verbatim>\<open>calculate_lead_time\<close> and of \<^verbatim>\<open>calculate_mttr\<close>.\<close>

fun elapsed_times :: "parser \<Rightarrow> rat \<Rightarrow> issue list \<Rightarrow> py_error + rat list" where
  "elapsed_times parse unit [] = Inr []"
| "elapsed_times parse unit (issue # rest) =
     and_then (field_lookup issue ''created'')
       (\<lambda>created. and_then (field_lookup issue ''resolutiondate'')
          (\<lambda>resolved. and_then (elapsed_times parse unit rest)
             (\<lambda>later. Inr (append_elapsed parse unit created resolved later))))"

text \<open>The dictionary \<^verbatim>\<open>calculate_lead_time\<close> returns for the collected list.\<close>

definition lead_time_summary :: "rat list \<Rightarrow> py_error + pydict" where
  "lead_time_summary lead_times =
     (if lead_times = []
      then Inr [(''average'', JNum 0), (''median'', JNum 0), (''min'', JNum 0),
                (''max'', JNum 0), (''count'', JNum 0)]
      else
        and_then (mean lead_times) (\<lambda>avg.
        and_then (median lead_times) (\<lambda>med.
        and_then (py_min lead_times) (\<lambda>lo.
        and_then (py_max lead_times) (\<lambda>hi.
          Inr [(''average'', JNum (py_round1 avg)),
               (''median'', JNum (py_round1 med)),
               (''min'', JNum (py_round1 lo)),
               (''max'', JNum (py_round1 hi)),
               (''count'', JNum (of_nat (length lead_times)))])))))"

definition calculate_lead_time :: "parser \<Rightarrow> issue list \<Rightarrow> py_error + pydict" where
  "calculate_lead_time parse issues =
     and_then (elapsed_times parse (24 * 3600) issues) lead_time_summary"

text \<open>The loop of \<^verbatim>\<open>calculate_deployment_frequency\<close>.\<close>

fun resolution_dates :: "parser \<Rightarrow> issue list \<Rightarrow> py_error + int list" where
  "resolution_dates parse [] = Inr []"
| "resolution_dates parse (issue # rest) =
     and_then (field_lookup issue ''resolutiondate'')
       (\<lambda>resolved. and_then (resolution_dates parse rest)
          (\<lambda>later. Inr (append_date parse resolved later)))"

definition deployment_summary :: "int list \<Rightarrow> pydict" where
  "deployment_summary dates =
     (if dates = []
      then [(''frequency'', JStr ''No data''), (''deployments_per_week'', JNum 0)]
      else
        (let unique_days = card (set dates);
             days_analyzed = 90;
             deployments_per_week = py_round1 ((of_nat unique_days / days_analyzed) * 7)
         in [(''frequency'', JStr (str_of_nat unique_days @ '' deployment days in 90 days'')),
             (''deployments_per_week'', JNum deployments_per_week),
             (''total_deployments'', JNum (of_nat unique_days))]))"

definition calculate_deployment_frequency :: "parser \<Rightarrow> issue list \<Rightarrow> py_error + pydict" where
  "calculate_deployment_frequency parse issues =
     and_then (resolution_dates parse issues) (\<lambda>dates. Inr (deployment_summary dates))"

definition mttr_summary :: "rat list \<Rightarrow> py_error + pydict" where
  "mttr_summary recovery_times =
     (if recovery_times = []
      then Inr [(''average_hours'', JNum 0), (''average_days'', JNum 0), (''count'', JNum 0)]
      else
        and_then (mean recovery_times) (\<lambda>avg_hours.
          (let avg_days = avg_hours / 24
           in Inr [(''average_hours'', JNum (py_round1 avg_hours)),
                   (''average_days'', JNum (py_round1 avg_days)),
                   (''count'', JNum (of_nat (length recovery_times)))])))"

definition calculate_mttr :: "parser \<Rightarrow> issue list \<Rightarrow> py_error + pydict" where
  "calculate_mttr parse issues =
     and_then (comprehension is_bug issues) (\<lambda>bug_issues.
     and_then (elapsed_times parse 3600 bug_issues) mttr_summary)"

definition failure_summary :: "nat \<Rightarrow> nat \<Rightarrow> nat \<Rightarrow> pydict" where
  "failure_summary total_issues bug_count critical_count =
     (let failure_rate =
            (if total_issues > 0 then of_nat bug_count / of_nat total_issues * 100 else 0)
      in [(''total_issues'', JNum (of_nat total_issues)),
          (''bug_issues'', JNum (of_nat bug_count)),
          (''critical_bugs'', JNum (of_nat critical_count)),
          (''failure_rate_percent'', JNum (py_round1 failure_rate)),
          (''critical_failure_rate_percent'',
             JNum (if total_issues > 0
                   then py_round1 (of_nat critical_count / of_nat total_issues * 100)
                   else 0))])"

definition calculate_change_failure_rate :: "issue list \<Rightarrow> py_error + pydict" where
  "calculate_change_failure_rate issues =
     (let total_issues = length issues
      in and_then (comprehension is_bug issues) (\<lambda>bug_issues.
         and_then (comprehension is_critical bug_issues) (\<lambda>critical_bugs.
           Inr (failure_summary total_issues (length bug_issues) (length critical_bugs)))))"

section \<open>The aggregator of DORAMetrics\<close>

text \<open>
  The object holds the project's name and key and the issues set with
  \<^verbatim>\<open>set_issues_data\<close>.  \<^verbatim>\<open>analyze_dora_metrics\<close> reads the clock once, for
  the \<open>analysis_date\<close> entry; the formatted reading is the parameter \<open>now\<close>.  Its
  \<^verbatim>\<open>print\<close> calls are left out.
\<close>

record dora_metrics =
  project_name :: string
  project_key :: string
  issues_data :: "issue list"

definition set_issues_data :: "dora_metrics \<Rightarrow> issue list \<Rightarrow> dora_metrics" where
  "set_issues_data self issues = self\<lparr>issues_data := issues\<rparr>"

definition get_issues_data :: "dora_metrics \<Rightarrow> issue list" where
  "get_issues_data self = issues_data self"

text \<open>A value used as the \<^verbatim>\<open>float\<close> argument of a comparison with a number.\<close>

fun as_number :: "json \<Rightarrow> py_error + rat" where
  "as_number (JNum x) = Inr x"
| "as_number (JBool b) = Inr (if b then 1 else 0)"
| "as_number JNull = Inl TypeError"
| "as_number (JStr s) = Inl TypeError"
| "as_number (JList xs) = Inl TypeError"
| "as_number (JDict d) = Inl TypeError"

text \<open>\<^verbatim>\<open>self.get_performance_level(metric, summary[key])\<close>.\<close>

definition level_of :: "string \<Rightarrow> pydict \<Rightarrow> string \<Rightarrow> py_error + string" where
  "level_of metric summary k =
     and_then (dict_index summary k) (\<lambda>v.
     and_then (as_number v) (\<lambda>x. Inr (get_performance_level metric x)))"

text \<open>\<^verbatim>\<open>{**summary, "performance_level": level}\<close>.\<close>

definition with_level :: "pydict \<Rightarrow> string \<Rightarrow> json" where
  "with_level summary level = JDict (AList.update ''performance_level'' (JStr level) summary)"

definition analyze_dora_metrics :: "parser \<Rightarrow> string \<Rightarrow> dora_metrics \<Rightarrow> py_error + pydict" where
  "analyze_dora_metrics parse now self =
     (let issues = get_issues_data self
      in if issues = [] then Inr []
         else
           and_then (calculate_lead_time parse issues) (\<lambda>lead_time.
           and_then (calculate_deployment_frequency parse issues) (\<lambda>deployment_freq.
           and_then (calculate_mttr parse issues) (\<lambda>mttr.
           and_then (calculate_change_failure_rate issues) (\<lambda>failure_rate.
           and_then (level_of ''lead_time_days'' lead_time ''average'') (\<lambda>lead_time_level.
           and_then (level_of ''deployments_per_week'' deployment_freq ''deployments_per_week'')
             (\<lambda>deployment_level.
           and_then (level_of ''mttr_hours'' mttr ''average_hours'') (\<lambda>mttr_level.
           and_then (level_of ''failure_rate'' failure_rate ''failure_rate_percent'')
             (\<lambda>failure_level.
             Inr [(''lead_time'', with_level lead_time lead_time_level),
                  (''deployment_frequency'', with_level deployment_freq deployment_level),
                  (''mttr'', with_level mttr mttr_level),
                  (''change_failure_rate'', with_level failure_rate failure_level),
                  (''analysis_date'', JStr now),
                  (''total_issues_analyzed'', JNum (of_nat (length issues))),
                  (''data_source'', JStr ''Real JIRA Data (MCP)'')])))))))))"




section \<open>The calculators of DORAMetricsIntegrated\<close>

text \<open>
  The second file reads every field under \<open>fields\<close> only:
  \<^verbatim>\<open>issue.get("fields", {}).get(k)\<close>.
\<close>

definition integrated_field :: "issue \<Rightarrow> string \<Rightarrow> py_error + json" where
  "integrated_field issue k = py_get (dict_get issue ''fields'' (JDict [])) k JNull"

definition integrated_is_bug :: "issue \<Rightarrow> py_error + bool" where
  "integrated_is_bug issue =
     and_then (nested_name issue ''issuetype'') (\<lambda>n. Inr (n = JStr ''Bug''))"

definition integrated_is_critical :: "issue \<Rightarrow> py_error + bool" where
  "integrated_is_critical issue =
     and_then (nested_name issue ''priority'') (\<lambda>n. Inr (in_highest_high n))"

fun integrated_elapsed_times :: "parser \<Rightarrow> rat \<Rightarrow> issue list \<Rightarrow> py_error + rat list" where
  "integrated_elapsed_times parse unit [] = Inr []"
| "integrated_elapsed_times parse unit (issue # rest) =
     and_then (integrated_field issue ''created'')
       (\<lambda>created. and_then (integrated_field issue ''resolutiondate'')
          (\<lambda>resolved. and_then (integrated_elapsed_times parse unit rest)
             (\<lambda>later. Inr (append_elapsed parse unit created resolved later))))"

definition integrated_calculate_lead_time :: "parser \<Rightarrow> issue list \<Rightarrow> py_error + pydict" where
  "integrated_calculate_lead_time parse issues =
     and_then (integrated_elapsed_times parse (24 * 3600) issues) lead_time_summary"

fun integrated_resolution_dates :: "parser \<Rightarrow> issue list \<Rightarrow> py_error + int list" where
  "integrated_resolution_dates parse [] = Inr []"
| "integrated_resolution_dates parse (issue # rest) =
     and_then (integrated_field issue ''resolutiondate'')
       (\<lambda>resolved. and_then (integrated_resolution_dates parse rest)
          (\<lambda>later. Inr (append_date parse resolved later)))"

definition integrated_calculate_deployment_frequency ::
    "parser \<Rightarrow> issue list \<Rightarrow> py_error + pydict" where
  "integrated_calculate_deployment_frequency parse issues =
     and_then (integrated_resolution_dates parse issues) (\<lambda>dates. Inr (deployment_summary dates))"

definition integrated_calculate_mttr :: "parser \<Rightarrow> issue list \<Rightarrow> py_error + pydict" where
  "integrated_calculate_mttr parse issues =
     and_then (comprehension integrated_is_bug issues) (\<lambda>bug_issues.
     and_then (integrated_elapsed_times parse 3600 bug_issues) mttr_summary)"

definition integrated_calculate_change_failure_rate :: "issue list \<Rightarrow> py_error + pydict" where
  "integrated_calculate_change_failure_rate issues =
     (let total_issues = length issues
      in and_then (comprehension integrated_is_bug issues) (\<lambda>bug_issues.
         and_then (comprehension integrated_is_critical bug_issues) (\<lambda>critical_bugs.
           Inr (failure_summary total_issues (length bug_issues) (length critical_bugs)))))"

section \<open>Shapes of records and the readings of the specification\<close>



text \<open>The entries under \<open>fields\<close>; none when there is no such dictionary.\<close>

definition nested :: "issue \<Rightarrow> pydict" where
  "nested issue = (case map_of issue ''fields'' of Some (JDict d) \<Rightarrow> d | _ \<Rightarrow> [])"







text \<open>The value of a field by the two-location order: top level when truthy, else nested.\<close>

definition preferred :: "issue \<Rightarrow> string \<Rightarrow> json" where
  "preferred issue k =
     (if truthy (dict_get issue k JNull) then dict_get issue k JNull
      else dict_get (nested issue) k JNull)"

text \<open>
  The datetime read from a field value: a non-empty string the parser reads.  Two
  datetimes can be subtracted when both carry a UTC offset (timezone-aware instants) or
  neither does.
\<close>

definition parsed :: "parser \<Rightarrow> json \<Rightarrow> py_datetime option" where
  "parsed parse v = (if truthy v then parse_value parse v else None)"











text \<open>The calendar date of a record's resolved timestamp, when it parses.\<close>

definition resolved_date :: "parser \<Rightarrow> issue \<Rightarrow> int option" where
  "resolved_date parse issue = map_option ordinal (parsed parse (preferred issue ''resolutiondate''))"

text \<open>A record with none of the four fields at top level.\<close>

definition only_nested :: "issue \<Rightarrow> bool" where
  "only_nested issue =
     (map_of issue ''created'' = None \<and> map_of issue ''resolutiondate'' = None
      \<and> map_of issue ''issuetype'' = None \<and> map_of issue ''priority'' = None)"

section \<open>Example records\<close>

text \<open>
  A fragment of the timestamp parser, enough for the examples: four timestamps in the
  format the tracker emits, with the dates \<^verbatim>\<open>dateutil\<close> reads from them
  (\<^verbatim>\<open>date(2024, 1, 1).toordinal() == 738886\<close>); the fragment reads no other string.
\<close>

definition jira_timestamps :: "(string \<times> py_datetime) list" where
  "jira_timestamps =
     [(''2024-01-01T00:00:00+0000'', \<lparr>ordinal = 738886, micros = 0, utcoffset = Some 0\<rparr>),
      (''2024-01-03T00:00:00+0000'', \<lparr>ordinal = 738888, micros = 0, utcoffset = Some 0\<rparr>),
      (''2024-01-03T12:00:00+0000'', \<lparr>ordinal = 738888, micros = 43200000000, utcoffset = Some 0\<rparr>),
      (''2024-01-10T00:00:00+0000'', \<lparr>ordinal = 738895, micros = 0, utcoffset = Some 0\<rparr>)]"

definition parse_fragment :: parser where
  "parse_fragment s = map_of jira_timestamps s"

text \<open>A record in the nested shape of the tracker's search results.\<close>

definition nested_record :: "string \<Rightarrow> string \<Rightarrow> json \<Rightarrow> string \<Rightarrow> json \<Rightarrow> issue" where
  "nested_record k issue_type priority created resolved =
     [(''key'', JStr k),
      (''fields'', JDict [(''issuetype'', JDict [(''name'', JStr issue_type)]),
                         (''created'', JStr created),
                         (''priority'', priority),
                         (''resolutiondate'', resolved)])]"

text \<open>A record in the flat shape.\<close>

definition flat_record :: "string \<Rightarrow> string \<Rightarrow> json \<Rightarrow> string \<Rightarrow> json \<Rightarrow> issue" where
  "flat_record k issue_type priority created resolved =
     [(''key'', JStr k),
      (''issuetype'', JDict [(''name'', JStr issue_type)]),
      (''created'', JStr created),
      (''priority'', priority),
      (''resolutiondate'', resolved)]"

definition named :: "string \<Rightarrow> json" where
  "named n = JDict [(''name'', JStr n)]"

text \<open>
  The scenario of section 8 of the specification: two bugs (one resolved after two days,
  priority High; one unresolved) and three resolved records of other types.
\<close>

definition bug_resolved :: issue where
  "bug_resolved = nested_record ''PROJ-1'' ''Bug'' (named ''High'')
     ''2024-01-01T00:00:00+0000'' (JStr ''2024-01-03T00:00:00+0000'')"

definition bug_open :: issue where
  "bug_open = nested_record ''PROJ-2'' ''Bug'' (named ''Low'')
     ''2024-01-01T00:00:00+0000'' JNull"

definition story_flat :: issue where
  "story_flat = flat_record ''PROJ-3'' ''Story'' (named ''Medium'')
     ''2024-01-01T00:00:00+0000'' (JStr ''2024-01-03T12:00:00+0000'')"

definition task_done :: issue where
  "task_done = nested_record ''PROJ-4'' ''Task'' (named ''Highest'')
     ''2024-01-01T00:00:00+0000'' (JStr ''2024-01-10T00:00:00+0000'')"

definition story_done :: issue where
  "story_done = nested_record ''PROJ-5'' ''Story'' (named ''Medium'')
     ''2024-01-03T00:00:00+0000'' (JStr ''2024-01-10T00:00:00+0000'')"

definition scenario :: "issue list" where
  "scenario = [bug_resolved, bug_open, story_flat, task_done, story_done]"


text \<open>A bug the tracker returns with no priority set: the entry is present and null.\<close>

definition bug_without_priority :: issue where
  "bug_without_priority = nested_record ''PROJ-6'' ''Bug'' JNull
     ''2024-01-01T00:00:00+0000'' (JStr ''2024-01-03T00:00:00+0000'')"


section \<open>Basic facts\<close>

lemma and_then_Inr [simp]: "and_then (Inr x) f = f x"
  by (simp add: and_then_def)

lemma and_then_Inl [simp]: "and_then (Inl e) f = Inl e"
  by (simp add: and_then_def)



section \<open>Rounding, mean and median\<close>


















section \<open>The lead-time loop on records with parseable timestamps\<close>








section \<open>The calculators on well-shaped records\<close>








section \<open>Properties of the tier classifier\<close>

text \<open>
  C1.  The claim: the classifier follows the polarity of each metric, so that a deployment
  frequency above 7 per week is Elite.  The code runs the same chain of \<open>\<le>\<close> tests for
  every metric; for \<open>deployments_per_week\<close> the thresholds 7, 1 and 0.2 descend, so a value
  above 7 fails all three tests and is Low, while no deployment at all is Elite.  Evaluated
  at 8 deployments per week (and at 0).
\<close>

theorem deployments_above_seven_is_low:
  "get_performance_level ''deployments_per_week'' 8 = ''Low''
   \<and> get_performance_level ''deployments_per_week'' 0 = ''Elite''"
  by (simp add: get_performance_level_def benchmarks_def)




section \<open>The two variants on nested records\<close>

lemma comprehension_cong:
  "(\<And>issue. issue \<in> set issues \<Longrightarrow> c1 issue = c2 issue) \<Longrightarrow>
     comprehension c1 issues = comprehension c2 issues"
  by (induction issues) simp_all

lemma comprehension_subset:
  "comprehension c issues = Inr kept \<Longrightarrow> set kept \<subseteq> set issues"
proof (induction issues arbitrary: kept)
  case Nil
  then show ?case by simp
next
  case (Cons issue rest)
  then show ?case
    by (cases "c issue"; cases "comprehension c rest") (auto split: if_splits)
qed

lemma only_nested_lookup:
  "only_nested issue \<Longrightarrow> k \<in> {''created'', ''resolutiondate''} \<Longrightarrow>
     field_lookup issue k = integrated_field issue k"
  by (auto simp: only_nested_def field_lookup_def integrated_field_def dict_get_def Let_def)

lemma only_nested_is_bug: "only_nested issue \<Longrightarrow> is_bug issue = integrated_is_bug issue"
  by (simp add: only_nested_def is_bug_def integrated_is_bug_def top_name_def dict_get_def)

lemma only_nested_is_critical:
  "only_nested issue \<Longrightarrow> is_critical issue = integrated_is_critical issue"
  by (simp add: only_nested_def is_critical_def integrated_is_critical_def top_name_def
      dict_get_def in_highest_high_def)

lemma only_nested_elapsed_times:
  "(\<And>issue. issue \<in> set issues \<Longrightarrow> only_nested issue) \<Longrightarrow>
     elapsed_times parse unit issues = integrated_elapsed_times parse unit issues"
  by (induction issues) (simp_all add: only_nested_lookup)

lemma only_nested_resolution_dates:
  "(\<And>issue. issue \<in> set issues \<Longrightarrow> only_nested issue) \<Longrightarrow>
     resolution_dates parse issues = integrated_resolution_dates parse issues"
  by (induction issues) (simp_all add: only_nested_lookup)

text \<open>
  C10.  On a sequence of records that carry \<open>created\<close>, \<open>resolutiondate\<close>,
  \<open>issuetype\<close> and \<open>priority\<close> under \<open>fields\<close> only, each of the four calculators
  of DORAMetrics has the outcome of its counterpart in DORAMetricsIntegrated: the same
  summary, or the same exception.
\<close>

theorem variants_agree_on_nested_records:
  assumes "\<forall>issue\<in>set issues. only_nested issue"
  shows "calculate_lead_time parse issues = integrated_calculate_lead_time parse issues
    \<and> calculate_deployment_frequency parse issues
        = integrated_calculate_deployment_frequency parse issues
    \<and> calculate_mttr parse issues = integrated_calculate_mttr parse issues
    \<and> calculate_change_failure_rate issues = integrated_calculate_change_failure_rate issues"
proof -
  have bugs: "comprehension is_bug issues = comprehension integrated_is_bug issues"
    using assms by (intro comprehension_cong) (simp add: only_nested_is_bug)
  have lead: "calculate_lead_time parse issues = integrated_calculate_lead_time parse issues"
    using assms
    by (simp add: calculate_lead_time_def integrated_calculate_lead_time_def
        only_nested_elapsed_times)
  have freq: "calculate_deployment_frequency parse issues
      = integrated_calculate_deployment_frequency parse issues"
    using assms
    by (simp add: calculate_deployment_frequency_def
        integrated_calculate_deployment_frequency_def only_nested_resolution_dates)
  have mttr: "calculate_mttr parse issues = integrated_calculate_mttr parse issues"
  proof (cases "comprehension integrated_is_bug issues")
    case (Inl e)
    then show ?thesis
      by (simp add: calculate_mttr_def integrated_calculate_mttr_def bugs)
  next
    case (Inr bug_issues)
    then have "set bug_issues \<subseteq> set issues"
      by (rule comprehension_subset)
    then have "elapsed_times parse 3600 bug_issues
        = integrated_elapsed_times parse 3600 bug_issues"
      using assms by (intro only_nested_elapsed_times) auto
    then show ?thesis
      by (simp add: calculate_mttr_def integrated_calculate_mttr_def bugs Inr)
  qed
  have rate: "calculate_change_failure_rate issues
      = integrated_calculate_change_failure_rate issues"
  proof (cases "comprehension integrated_is_bug issues")
    case (Inl e)
    then show ?thesis
      by (simp add: calculate_change_failure_rate_def
          integrated_calculate_change_failure_rate_def bugs)
  next
    case (Inr bug_issues)
    then have "set bug_issues \<subseteq> set issues"
      by (rule comprehension_subset)
    then have "comprehension is_critical bug_issues
        = comprehension integrated_is_critical bug_issues"
      using assms by (intro comprehension_cong) (auto simp: only_nested_is_critical)
    then show ?thesis
      by (simp add: calculate_change_failure_rate_def
          integrated_calculate_change_failure_rate_def bugs Inr)
  qed
  from lead freq mttr rate show ?thesis by simp
qed

theorem variants_agree_witness:
  "only_nested bug_resolved \<and> only_nested bug_open \<and> only_nested task_done
   \<and> calculate_lead_time parse_fragment [bug_resolved, bug_open, task_done]
       = integrated_calculate_lead_time parse_fragment [bug_resolved, bug_open, task_done]
   \<and> calculate_deployment_frequency parse_fragment [bug_resolved, bug_open, task_done]
       = integrated_calculate_deployment_frequency parse_fragment
           [bug_resolved, bug_open, task_done]
   \<and> calculate_mttr parse_fragment [bug_resolved, bug_open, task_done]
       = integrated_calculate_mttr parse_fragment [bug_resolved, bug_open, task_done]
   \<and> calculate_change_failure_rate [bug_resolved, bug_open, task_done]
       = integrated_calculate_change_failure_rate [bug_resolved, bug_open, task_done]
   \<and> integrated_calculate_mttr parse_fragment [bug_resolved, bug_open, task_done] = Inr
        [(''average_hours'', JNum 48), (''average_days'', JNum 2), (''count'', JNum 1)]"
proof -
  have nested: "\<forall>issue\<in>set [bug_resolved, bug_open, task_done]. only_nested issue"
    by code_simp
  have mttr: "integrated_calculate_mttr parse_fragment [bug_resolved, bug_open, task_done] = Inr
        [(''average_hours'', JNum 48), (''average_days'', JNum 2), (''count'', JNum 1)]"
    by code_simp
  from variants_agree_on_nested_records [OF nested, of parse_fragment] nested mttr
  show ?thesis by simp
qed

section \<open>Lead time\<close>



section \<open>Change failure rate\<close>



section \<open>Deployment frequency\<close>



section \<open>The two-location lookup\<close>




section \<open>The aggregator\<close>


section \<open>Malformed records and empty populations\<close>

text \<open>
  C3.  The claim: a malformed record is left out of the affected metric and no calculator
  raises.  A bug whose \<open>priority\<close> entry is present and null makes
  \<^verbatim>\<open>.get("name")\<close> raise \<^verbatim>\<open>AttributeError\<close> in the comprehension of
  \<^verbatim>\<open>calculate_change_failure_rate\<close>, outside any handler: the calculator raises,
  and the aggregator with it, for the whole batch of six records.
\<close>

theorem malformed_record_aborts_batch:
  "calculate_change_failure_rate (scenario @ [bug_without_priority]) = Inl AttributeError
   \<and> analyze_dora_metrics parse_fragment ''2024-02-01 09:00:00''
        \<lparr>project_name = ''Project'', project_key = ''PROJ'',
         issues_data = scenario @ [bug_without_priority]\<rparr> = Inl AttributeError"
  by code_simp

text \<open>
  C4.  The claim: the result of the deployment frequency calculator always carries
  \<open>frequency\<close>, \<open>deployments_per_week\<close> and \<open>total_deployments\<close>.  With no
  parseable resolved date the calculator returns the two-entry dictionary
  \<open>frequency = No data\<close>, \<open>deployments_per_week = 0\<close>; reading
  \<open>total_deployments\<close> from it is a \<^verbatim>\<open>KeyError\<close>.  Evaluated on the empty
  sequence and on one unresolved record.
\<close>

theorem no_data_sentinel_lacks_total:
  "calculate_deployment_frequency parse []
     = Inr [(''frequency'', JStr ''No data''), (''deployments_per_week'', JNum 0)]
   \<and> and_then (calculate_deployment_frequency parse []) (\<lambda>r. dict_index r ''total_deployments'')
     = Inl KeyError
   \<and> calculate_deployment_frequency parse_fragment [bug_open]
     = Inr [(''frequency'', JStr ''No data''), (''deployments_per_week'', JNum 0)]"
  by (simp add: calculate_deployment_frequency_def deployment_summary_def dict_index_def
      bug_open_def nested_record_def named_def field_lookup_def dict_get_def append_date_def)


end
